theory Spec2Isabelle
  imports Complex_Main
begin

section \<open>JavaScript values used by the services\<close>

text \<open>
  Strings are lists of 8-bit characters; the texts the application handles are taken to be
  ASCII. Numbers are mathematical numbers: the rounding of IEEE doubles is not modelled.
  An exception is an \<open>Error\<close> object, identified with its message.
\<close>

datatype js_error = Error string

datatype json = JNull | JBool bool | JNum real | JStr string
  | JArr "json list" | JObj "(string \<times> json) list"

text \<open>Truthiness, as the \<open>if (x)\<close> and \<open>x && y\<close> of the source test it.\<close>

fun truthy :: "json \<Rightarrow> bool" where
  "truthy JNull = False"
| "truthy (JBool b) = b"
| "truthy (JNum r) = (r \<noteq> 0)"
| "truthy (JStr s) = (s \<noteq> [])"
| "truthy (JArr _) = True"
| "truthy (JObj _) = True"

text \<open>
  A parameter object: its properties in insertion order (the keys are distinct identifiers),
  each a string, a boolean, an integer or \<open>undefined\<close>.
\<close>

datatype param = PStr string | PBool bool | PNum int | PUndefined

type_synonym params = "(string \<times> param) list"

subsection \<open>\<open>JSON.stringify\<close> on a parameter object\<close>

definition digit_char :: "nat \<Rightarrow> char" where
  "digit_char d = ''0123456789abcdef'' ! d"

fun show_nat :: "nat \<Rightarrow> string" where
  "show_nat n = (if n < 10 then [digit_char n] else show_nat (n div 10) @ [digit_char (n mod 10)])"

definition show_int :: "int \<Rightarrow> string" where
  "show_int i = (if i < 0 then CHR ''-'' # show_nat (nat (- i)) else show_nat (nat i))"

text \<open>The escapes of \<open>QuoteJSONString\<close>; code unit 8 is backspace, 12 form feed.\<close>

definition json_escape :: "char \<Rightarrow> string" where
  "json_escape c =
     (let n = (of_char c :: nat) in
      if c = CHR 0x22 then [CHR 0x5C, CHR 0x22]
      else if c = CHR 0x5C then [CHR 0x5C, CHR 0x5C]
      else if n = 8 then [CHR 0x5C, CHR ''b'']
      else if n = 12 then [CHR 0x5C, CHR ''f'']
      else if n = 10 then [CHR 0x5C, CHR ''n'']
      else if n = 13 then [CHR 0x5C, CHR ''r'']
      else if n = 9 then [CHR 0x5C, CHR ''t'']
      else if n < 32 then [CHR 0x5C, CHR ''u'', CHR ''0'', CHR ''0'', digit_char (n div 16), digit_char (n mod 16)]
      else [c])"

definition json_quote :: "string \<Rightarrow> string" where
  "json_quote s = [CHR 0x22] @ concat (map json_escape s) @ [CHR 0x22]"

fun stringify_param :: "param \<Rightarrow> string option" where
  "stringify_param (PStr s) = Some (json_quote s)"
| "stringify_param (PBool b) = Some (if b then ''true'' else ''false'')"
| "stringify_param (PNum i) = Some (show_int i)"
| "stringify_param PUndefined = None"

text \<open>A property whose value is \<open>undefined\<close> is left out of the serialisation.\<close>

fun stringify_props :: "params \<Rightarrow> string list" where
  "stringify_props [] = []"
| "stringify_props ((k, v) # ps) =
     (case stringify_param v of
        None \<Rightarrow> stringify_props ps
      | Some s \<Rightarrow> (json_quote k @ '':'' @ s) # stringify_props ps)"

fun join :: "string \<Rightarrow> string list \<Rightarrow> string" where
  "join sep [] = []"
| "join sep [x] = x"
| "join sep (x # y # ys) = x @ sep @ join sep (y # ys)"

definition JSON_stringify :: "params \<Rightarrow> string" where
  "JSON_stringify ps = ''{'' @ join '','' (stringify_props ps) @ ''}''"

section \<open>The API manager (\<open>services/apiManager.js\<close>)\<close>

record cache_entry =
  entry_data :: json
  timestamp :: int

text \<open>
  The manager's two \<open>Map\<close>s. The rate limiter's map sends a timestamp to \<open>true\<close>: it is
  the list of its keys in insertion order, so setting a key that is present changes nothing.
\<close>

record api_manager =
  cache :: "string \<rightharpoonup> cache_entry"
  rateLimiter :: "int list"

definition cacheTimeout :: int where
  "cacheTimeout = 5 * 60 * 1000"

definition maxRequestsPerMinute :: nat where
  "maxRequestsPerMinute = 50"

definition new_ApiManager :: api_manager where
  "new_ApiManager = \<lparr>cache = Map.empty, rateLimiter = []\<rparr>"

definition map_set :: "int \<Rightarrow> int list \<Rightarrow> int list" where
  "map_set k ks = (if k \<in> set ks then ks else ks @ [k])"

text \<open>
  \<open>handleRateLimit\<close> at time \<open>now\<close> (the value of \<open>Date.now()\<close>): the stale keys are
  deleted also when the request is then refused.
\<close>

definition handleRateLimit :: "int \<Rightarrow> api_manager \<Rightarrow> (js_error + unit) \<times> api_manager" where
  "handleRateLimit now s =
     (let windowStart = now - 60000;
          kept = filter (\<lambda>timestamp. \<not> timestamp < windowStart) (rateLimiter s) in
      if length kept \<ge> maxRequestsPerMinute
      then (Inl (Error ''Rate limit exceeded. Please wait before making more requests.''),
            s\<lparr>rateLimiter := kept\<rparr>)
      else (Inr (), s\<lparr>rateLimiter := map_set now kept\<rparr>))"

definition getCacheKey :: "string \<Rightarrow> params \<Rightarrow> string" where
  "getCacheKey url ps = url @ ''_'' @ JSON_stringify ps"

text \<open>\<open>getFromCache\<close>: \<open>None\<close> is the \<open>null\<close> it returns on a miss.\<close>

definition getFromCache :: "string \<Rightarrow> int \<Rightarrow> api_manager \<Rightarrow> json option \<times> api_manager" where
  "getFromCache key now s =
     (case cache s key of
        Some cached \<Rightarrow>
          if now - timestamp cached < cacheTimeout then (Some (entry_data cached), s)
          else (None, s\<lparr>cache := (cache s)(key := None)\<rparr>)
      | None \<Rightarrow> (None, s\<lparr>cache := (cache s)(key := None)\<rparr>))"

definition setCache :: "string \<Rightarrow> json \<Rightarrow> int \<Rightarrow> api_manager \<Rightarrow> api_manager" where
  "setCache key d now s = s\<lparr>cache := (cache s)(key \<mapsto> \<lparr>entry_data = d, timestamp = now\<rparr>)\<rparr>"

subsection \<open>Requests\<close>

text \<open>
  What the transport can answer: a response body, or a failure that \<open>handleApiError\<close>
  tells apart by the \<open>response\<close> and \<open>request\<close> fields of the error.
\<close>

datatype transport_failure =
    HttpStatus nat "string option"
  | NoResponse
  | SetupFailure string

definition handleApiError :: "transport_failure \<Rightarrow> string" where
  "handleApiError e =
     (case e of
        HttpStatus code msg \<Rightarrow>
          ''API Error: '' @ show_nat code @ '' - '' @
            (case msg of Some m \<Rightarrow> (if m = [] then ''Unknown error'' else m) | None \<Rightarrow> ''Unknown error'')
      | NoResponse \<Rightarrow> ''Network Error: Unable to reach the server''
      | SetupFailure m \<Rightarrow> ''Error: '' @ m)"

type_synonym request = "string \<times> params"

type_synonym transport = "request \<Rightarrow> transport_failure + json"

text \<open>
  \<open>axiosInstance.get\<close>: the request interceptor (\<open>handleRateLimit\<close>), the transport, the
  response interceptor (\<open>handleResponseError\<close>). An exception of the request interceptor
  reaches the response interceptor as an error with neither \<open>response\<close> nor \<open>request\<close>.
  The result lists the requests handed to the transport.
\<close>

definition axios_get ::
  "transport \<Rightarrow> request \<Rightarrow> int \<Rightarrow> api_manager \<Rightarrow> (js_error + json) \<times> api_manager \<times> request list" where
  "axios_get net req now s =
     (case handleRateLimit now s of
        (Inl (Error m), s') \<Rightarrow> (Inl (Error (handleApiError (SetupFailure m))), s', [])
      | (Inr _, s') \<Rightarrow>
          (case net req of
             Inl failure \<Rightarrow> (Inl (Error (handleApiError failure)), s', [req])
           | Inr body \<Rightarrow> (Inr body, s', [req])))"

text \<open>
  The \<open>try\<close> block of \<open>makeRequest\<close>: the request, and the caching of a truthy body of
  the response, which arrives at time \<open>t1\<close>.
\<close>

definition fetch ::
  "transport \<Rightarrow> string \<Rightarrow> params \<Rightarrow> bool \<Rightarrow> int \<Rightarrow> int \<Rightarrow> api_manager
     \<Rightarrow> (js_error + json) \<times> api_manager \<times> request list" where
  "fetch net url ps useCache t0 t1 s =
     (case axios_get net (url, ps) t0 s of
        (Inl e, s', sent) \<Rightarrow> (Inl e, s', sent)
      | (Inr body, s', sent) \<Rightarrow>
          (Inr body,
           (if useCache \<and> truthy body then setCache (getCacheKey url ps) body t1 s' else s'),
           sent))"

text \<open>\<open>makeRequest\<close>, called at time \<open>t0\<close>.\<close>

definition makeRequest ::
  "transport \<Rightarrow> string \<Rightarrow> params \<Rightarrow> bool \<Rightarrow> int \<Rightarrow> int \<Rightarrow> api_manager
     \<Rightarrow> (js_error + json) \<times> api_manager \<times> request list" where
  "makeRequest net url ps useCache t0 t1 s =
     (if useCache then
        (case getFromCache (getCacheKey url ps) t0 s of
           (Some cachedData, s') \<Rightarrow>
             if truthy cachedData then (Inr cachedData, s', [])
             else fetch net url ps useCache t0 t1 s'
         | (None, s') \<Rightarrow> fetch net url ps useCache t0 t1 s')
      else fetch net url ps useCache t0 t1 s)"

text \<open>\<open>searchCoins\<close>: an absent query is \<open>None\<close>.\<close>

definition searchCoins ::
  "transport \<Rightarrow> string option \<Rightarrow> int \<Rightarrow> int \<Rightarrow> api_manager
     \<Rightarrow> (js_error + json) \<times> api_manager \<times> request list" where
  "searchCoins net query t0 t1 s =
     (case query of
        None \<Rightarrow> (Inr (JObj [(''coins'', JArr [])]), s, [])
      | Some q \<Rightarrow>
          if q = [] \<or> length q < 2 then (Inr (JObj [(''coins'', JArr [])]), s, [])
          else makeRequest net ''/search'' [(''query'', PStr q)] False t0 t1 s)"

text \<open>A sequence of requests through the interceptor, at the given times: which were admitted.\<close>

fun attempts :: "int list \<Rightarrow> api_manager \<Rightarrow> bool list" where
  "attempts [] s = []"
| "attempts (now # ts) s =
     (case handleRateLimit now s of
        (Inl _, s') \<Rightarrow> False # attempts ts s'
      | (Inr _, s') \<Rightarrow> True # attempts ts s')"

section \<open>The direct client (\<open>services/cryptoAPI.js\<close>)\<close>

record rate_limiter =
  maxRequests :: nat
  windowMs :: int
  requests :: "int list"

definition new_RateLimiter :: rate_limiter where
  "new_RateLimiter = \<lparr>maxRequests = 10, windowMs = 60000, requests = []\<rparr>"

definition canMakeRequest :: "int \<Rightarrow> rate_limiter \<Rightarrow> bool \<times> rate_limiter" where
  "canMakeRequest now rl =
     (let kept = filter (\<lambda>time. now - time < windowMs rl) (requests rl) in
      (length kept < maxRequests rl, rl\<lparr>requests := kept\<rparr>))"

definition recordRequest :: "int \<Rightarrow> rate_limiter \<Rightarrow> rate_limiter" where
  "recordRequest now rl = rl\<lparr>requests := requests rl @ [now]\<rparr>"

text \<open>The request interceptor of the client, at time \<open>now\<close>.\<close>

definition request_interceptor :: "int \<Rightarrow> rate_limiter \<Rightarrow> (js_error + unit) \<times> rate_limiter" where
  "request_interceptor now rl =
     (case canMakeRequest now rl of
        (False, rl') \<Rightarrow> (Inl (Error ''Rate limit exceeded. Please wait a moment.''), rl')
      | (True, rl') \<Rightarrow> (Inr (), recordRequest now rl'))"

fun client_attempts :: "int list \<Rightarrow> rate_limiter \<Rightarrow> bool list" where
  "client_attempts [] rl = []"
| "client_attempts (now # ts) rl =
     (case request_interceptor now rl of
        (Inl _, rl') \<Rightarrow> False # client_attempts ts rl'
      | (Inr _, rl') \<Rightarrow> True # client_attempts ts rl')"

text \<open>The times of the admitted requests, and the window of 60 seconds that starts at \<open>w\<close>.\<close>

fun client_admitted :: "int list \<Rightarrow> rate_limiter \<Rightarrow> int list" where
  "client_admitted [] rl = []"
| "client_admitted (now # ts) rl =
     (case request_interceptor now rl of
        (Inl _, rl') \<Rightarrow> client_admitted ts rl'
      | (Inr _, rl') \<Rightarrow> now # client_admitted ts rl')"

definition in_window :: "int \<Rightarrow> int \<Rightarrow> bool" where
  "in_window w t = (w \<le> t \<and> t < w + 60000)"

subsection \<open>Prices\<close>

text \<open>
  The body of a \<open>/simple/price\<close> response: an object that sends a coin identifier to its
  record. A record carries the price; the change and the market capitalisation may be
  missing (\<open>undefined\<close>). Looking up an identifier finds the record of that name only.
\<close>

record price_data =
  usd :: real
  usd_24h_change :: "real option"
  usd_market_cap :: "real option"

type_synonym prices = "string \<rightharpoonup> price_data"

text \<open>An error of the transport, as the response interceptor of the client reads it.\<close>

record axios_error =
  response_status :: "nat option"
  code_ECONNABORTED :: bool
  error_message :: string

definition response_interceptor :: "axios_error \<Rightarrow> js_error" where
  "response_interceptor e =
     (if response_status e = Some 429 then Error ''API rate limit exceeded. Please try again in a minute.''
      else if code_ECONNABORTED e then Error ''Request timeout. Please check your connection.''
      else if response_status e = None then Error ''Network error. Please check your internet connection.''
      else Error (error_message e))"

text \<open>
  \<open>api.get\<close>: the request interceptor, the transport, the response interceptor. The
  rejection of the request interceptor reaches the response interceptor as an error with no
  \<open>response\<close> and no \<open>code\<close>.
\<close>

definition api_get ::
  "(axios_error + 'a) \<Rightarrow> int \<Rightarrow> rate_limiter \<Rightarrow> (js_error + 'a) \<times> rate_limiter" where
  "api_get answer now rl =
     (case request_interceptor now rl of
        (Inl (Error m), rl') \<Rightarrow>
          (Inl (response_interceptor
                  \<lparr>response_status = None, code_ECONNABORTED = False, error_message = m\<rparr>), rl')
      | (Inr _, rl') \<Rightarrow>
          (case answer of
             Inl e \<Rightarrow> (Inl (response_interceptor e), rl')
           | Inr body \<Rightarrow> (Inr body, rl')))"

record price_info =
  price :: real
  price_change24h :: "real option"
  marketCap :: "real option"


definition getMultiplePrices ::
  "(axios_error + prices) \<Rightarrow> string list \<Rightarrow> int \<Rightarrow> rate_limiter \<Rightarrow> (js_error + prices) \<times> rate_limiter" where
  "getMultiplePrices answer coinIds now rl = api_get answer now rl"

section \<open>The portfolio (\<open>hooks/usePortfolio.js\<close>)\<close>

text \<open>
  A holding. Its \<open>id\<close> is the decimal rendering of the time of its creation; \<open>addedAt\<close>
  and \<open>lastUpdated\<close> are ISO renderings of an instant, kept here as the instant in
  milliseconds. The fields of a valuation are \<open>undefined\<close> until one has been made.
\<close>

record holding =
  hid :: string
  coinId :: string
  coinName :: string
  coinSymbol :: string
  amount :: real
  currentPrice :: "real option"
  currentValue :: "real option"
  change24h :: "real option"
  addedAt :: int
  lastUpdated :: int

record portfolio =
  holdings :: "holding list"
  portfolioValue :: real
  portfolio_error :: "string option"

definition new_portfolio :: portfolio where
  "new_portfolio = \<lparr>holdings = [], portfolioValue = 0, portfolio_error = None\<rparr>"

definition to_upper :: "char \<Rightarrow> char" where
  "to_upper c =
     (case map_of (zip ''abcdefghijklmnopqrstuvwxyz'' ''ABCDEFGHIJKLMNOPQRSTUVWXYZ'') c of
        Some u \<Rightarrow> u
      | None \<Rightarrow> c)"

definition toUpperCase :: "string \<Rightarrow> string" where
  "toUpperCase s = map to_upper s"

fun findIndex :: "('a \<Rightarrow> bool) \<Rightarrow> 'a list \<Rightarrow> nat option" where
  "findIndex P [] = None"
| "findIndex P (x # xs) = (if P x then Some 0 else map_option Suc (findIndex P xs))"

text \<open>The state update of \<open>addHolding\<close>, made at time \<open>now\<close>.\<close>

definition addHolding :: "string \<Rightarrow> string \<Rightarrow> string \<Rightarrow> real \<Rightarrow> int \<Rightarrow> holding list \<Rightarrow> holding list" where
  "addHolding cid cname csymbol amt now prevHoldings =
     (case findIndex (\<lambda>h. coinId h = cid) prevHoldings of
        Some existingIndex \<Rightarrow>
          prevHoldings[existingIndex :=
            (prevHoldings ! existingIndex)
              \<lparr>amount := amount (prevHoldings ! existingIndex) + amt, lastUpdated := now\<rparr>]
      | None \<Rightarrow>
          prevHoldings @
            [\<lparr>hid = show_int now, coinId = cid, coinName = cname, coinSymbol = toUpperCase csymbol,
              amount = amt, currentPrice = None, currentValue = None, change24h = None,
              addedAt = now, lastUpdated = now\<rparr>])"

definition removeHolding :: "string \<Rightarrow> holding list \<Rightarrow> holding list" where
  "removeHolding holdingId prevHoldings = filter (\<lambda>h. hid h \<noteq> holdingId) prevHoldings"

definition updateHolding :: "string \<Rightarrow> real \<Rightarrow> int \<Rightarrow> holding list \<Rightarrow> holding list" where
  "updateHolding holdingId newAmount now prevHoldings =
     (if newAmount \<le> 0 then removeHolding holdingId prevHoldings
      else map (\<lambda>h. if hid h = holdingId then h\<lparr>amount := newAmount, lastUpdated := now\<rparr> else h)
             prevHoldings)"

text \<open>
  \<open>calculatePortfolioValue\<close>, with the result of \<open>getMultiplePrices\<close> and the time \<open>now\<close>
  at which it arrives: the holdings the source has a record for are revalued and summed,
  the others are kept as they are.
\<close>

definition revalue :: "prices \<Rightarrow> int \<Rightarrow> holding \<Rightarrow> holding" where
  "revalue ps now h =
     (case ps (coinId h) of
        Some priceData \<Rightarrow>
          h\<lparr>currentPrice := Some (usd priceData),
            currentValue := Some (amount h * usd priceData),
            change24h := usd_24h_change priceData,
            lastUpdated := now\<rparr>
      | None \<Rightarrow> h)"

definition valued_total :: "prices \<Rightarrow> holding list \<Rightarrow> real" where
  "valued_total ps hs =
     fold (\<lambda>h totalValue. case ps (coinId h) of
                             Some priceData \<Rightarrow> totalValue + amount h * usd priceData
                           | None \<Rightarrow> totalValue) hs 0"

definition calculatePortfolioValue :: "(js_error + prices) \<Rightarrow> int \<Rightarrow> portfolio \<Rightarrow> portfolio" where
  "calculatePortfolioValue fetched now p =
     (if holdings p = [] then p\<lparr>portfolioValue := 0\<rparr>
      else case fetched of
             Inr ps \<Rightarrow>
               p\<lparr>holdings := map (revalue ps now) (holdings p),
                 portfolioValue := valued_total ps (holdings p),
                 portfolio_error := None\<rparr>
           | Inl _ \<Rightarrow> p\<lparr>portfolio_error := Some ''Failed to update portfolio values''\<rparr>)"

text \<open>
  The result of a division or of an operation on \<open>undefined\<close> need not be a number.
\<close>

datatype jsnum = Num real | PosInfinity | NegInfinity | NaN

definition js_div :: "real \<Rightarrow> real \<Rightarrow> jsnum" where
  "js_div a b =
     (if b \<noteq> 0 then Num (a / b)
      else if a > 0 then PosInfinity else if a < 0 then NegInfinity else NaN)"

fun times100 :: "jsnum \<Rightarrow> jsnum" where
  "times100 (Num r) = Num (r * 100)"
| "times100 x = x"

record summary =
  totalCoins :: nat
  totalValue :: real
  summary_change24h :: jsnum
  summary_holdings :: "(holding \<times> jsnum) list"

text \<open>
  The loop of \<open>getPortfolioSummary\<close>: a holding counts when its change is not
  \<open>undefined\<close> and its value is truthy.
\<close>

definition counts :: "holding \<Rightarrow> bool" where
  "counts h = (change24h h \<noteq> None \<and> (case currentValue h of Some v \<Rightarrow> v \<noteq> 0 | None \<Rightarrow> False))"

definition summary_step :: "holding \<Rightarrow> real \<times> nat \<Rightarrow> real \<times> nat" where
  "summary_step h acc =
     (case acc of (totalChange24h, validChanges) \<Rightarrow>
        if counts h
        then (totalChange24h + (the (change24h h) / 100) * the (currentValue h), validChanges + 1)
        else (totalChange24h, validChanges))"

definition getPortfolioSummary :: "portfolio \<Rightarrow> summary" where
  "getPortfolioSummary p =
     (let (totalChange24h, validChanges) = fold summary_step (holdings p) (0, 0);
          avgChange24h =
            (if validChanges > 0 then times100 (js_div totalChange24h (portfolioValue p)) else Num 0)
      in \<lparr>totalCoins = length (holdings p),
          totalValue = portfolioValue p,
          summary_change24h = avgChange24h,
          summary_holdings =
            map (\<lambda>h. (h, if portfolioValue p > 0
                          then (case currentValue h of
                                  Some v \<Rightarrow> Num ((v / portfolioValue p) * 100)
                                | None \<Rightarrow> NaN)
                          else Num 0))
              (holdings p)\<rparr>)"

section \<open>Strings and regular expressions\<close>

text \<open>
  The character classes of the patterns, on ASCII text: \<open>\d\<close>, \<open>\s\<close>, \<open>\w\<close>, and the
  line terminators that \<open>.\<close> does not match.
\<close>

definition is_digit :: "char \<Rightarrow> bool" where
  "is_digit c = (c \<in> set ''0123456789'')"

definition is_space :: "char \<Rightarrow> bool" where
  "is_space c = (c \<in> set [CHR 0x20, CHR 0x09, CHR 0x0A, CHR 0x0B, CHR 0x0C, CHR 0x0D])"

definition is_word :: "char \<Rightarrow> bool" where
  "is_word c = (c \<in> set ''abcdefghijklmnopqrstuvwxyzABCDEFGHIJKLMNOPQRSTUVWXYZ0123456789_'')"

definition is_line_terminator :: "char \<Rightarrow> bool" where
  "is_line_terminator c = (c = CHR 0x0A \<or> c = CHR 0x0D)"

definition to_lower :: "char \<Rightarrow> char" where
  "to_lower c =
     (case map_of (zip ''ABCDEFGHIJKLMNOPQRSTUVWXYZ'' ''abcdefghijklmnopqrstuvwxyz'') c of
        Some l \<Rightarrow> l
      | None \<Rightarrow> c)"

definition toLowerCase :: "string \<Rightarrow> string" where
  "toLowerCase s = map to_lower s"

definition trim :: "string \<Rightarrow> string" where
  "trim s = rev (dropWhile is_space (rev (dropWhile is_space s)))"

text \<open>
  The regular expressions of the source, as terms: sequences, ordered alternatives, greedy
  and lazy repetition, capture groups, the assertions \<open>^\<close>, \<open>$\<close>, \<open>\b\<close> and the negative
  lookahead. \<open>NotWordNorSpace\<close> is the class \<open>[^\w\s]\<close>.
\<close>

datatype cls = Any | Digit | Space | WordCh | NotWordNorSpace

fun in_cls :: "cls \<Rightarrow> char \<Rightarrow> bool" where
  "in_cls Any c = (\<not> is_line_terminator c)"
| "in_cls Digit c = is_digit c"
| "in_cls Space c = is_space c"
| "in_cls WordCh c = is_word c"
| "in_cls NotWordNorSpace c = (\<not> is_word c \<and> \<not> is_space c)"

datatype rx =
    Lit string
  | Cls cls
  | Eps
  | Seq rx rx
  | Alt rx rx
  | Star bool rx
  | Group nat rx
  | Bol
  | Eol
  | WordB
  | NotAhead rx

text \<open>
  A state of the matcher: the character before the position (none at the start of the
  text), the text from the position on, and the captures made so far.
\<close>

type_synonym mstate = "char option \<times> string \<times> (nat \<times> string) list"

fun lit_match :: "bool \<Rightarrow> string \<Rightarrow> char option \<Rightarrow> string \<Rightarrow> (char option \<times> string) option" where
  "lit_match ci [] prev rest = Some (prev, rest)"
| "lit_match ci (x # xs) prev [] = None"
| "lit_match ci (x # xs) prev (c # cs) =
     (if (if ci then to_lower x = to_lower c else x = c) then lit_match ci xs (Some c) cs else None)"

definition at_boundary :: "char option \<Rightarrow> string \<Rightarrow> bool" where
  "at_boundary prev rest =
     ((case prev of Some c \<Rightarrow> is_word c | None \<Rightarrow> False)
      \<noteq> (case rest of c # _ \<Rightarrow> is_word c | [] \<Rightarrow> False))"

text \<open>
  The backtracking matcher: \<open>matches ci r st\<close> lists the states in which a match of \<open>r\<close>
  from \<open>st\<close> can end, in the order in which backtracking tries them; \<open>ci\<close> is the flag
  \<open>i\<close>. A repetition goes round again only after an iteration that consumed a character.
\<close>

function matches :: "bool \<Rightarrow> rx \<Rightarrow> mstate \<Rightarrow> mstate list" where
  "matches ci (Lit s) (prev, rest, caps) =
     (case lit_match ci s prev rest of Some (prev', rest') \<Rightarrow> [(prev', rest', caps)] | None \<Rightarrow> [])"
| "matches ci (Cls k) (prev, rest, caps) =
     (case rest of c # cs \<Rightarrow> (if in_cls k c then [(Some c, cs, caps)] else []) | [] \<Rightarrow> [])"
| "matches ci Eps st = [st]"
| "matches ci (Seq r1 r2) st = concat (map (matches ci r2) (matches ci r1 st))"
| "matches ci (Alt r1 r2) st = matches ci r1 st @ matches ci r2 st"
| "matches ci (Star greedy r) (prev, rest, caps) =
     (let more = concat (map (\<lambda>st'. if length (fst (snd st')) < length rest
                                       then matches ci (Star greedy r) st' else [])
                            (matches ci r (prev, rest, caps)))
      in if greedy then more @ [(prev, rest, caps)] else (prev, rest, caps) # more)"
| "matches ci (Group n r) (prev, rest, caps) =
     map (\<lambda>(prev', rest', caps'). (prev', rest', (n, take (length rest - length rest') rest) # caps'))
       (matches ci r (prev, rest, caps))"
| "matches ci Bol (prev, rest, caps) = (if prev = None then [(prev, rest, caps)] else [])"
| "matches ci Eol (prev, rest, caps) = (if rest = [] then [(prev, rest, caps)] else [])"
| "matches ci WordB (prev, rest, caps) = (if at_boundary prev rest then [(prev, rest, caps)] else [])"
| "matches ci (NotAhead r) st = (if matches ci r st = [] then [st] else [])"
  by pat_completeness auto
termination
  by (relation "measures [\<lambda>(ci, r, st). size r, \<lambda>(ci, r, st). length (fst (snd st))]") auto

declare matches.simps(6) [simp del]

text \<open>The first state of that list, if any: where the match ends.\<close>

definition first_match :: "bool \<Rightarrow> rx \<Rightarrow> mstate \<Rightarrow> mstate option" where
  "first_match ci r st = (case matches ci r st of [] \<Rightarrow> None | s # _ \<Rightarrow> Some s)"

text \<open>The first match from the leftmost position that has one; it yields the captures.\<close>

fun search :: "bool \<Rightarrow> rx \<Rightarrow> char option \<Rightarrow> string \<Rightarrow> (nat \<times> string) list option" where
  "search ci r prev rest =
     (case matches ci r (prev, rest, []) of
        (_, _, caps) # _ \<Rightarrow> Some caps
      | [] \<Rightarrow> (case rest of [] \<Rightarrow> None | c # cs \<Rightarrow> search ci r (Some c) cs))"

declare search.simps [simp del]

text \<open>Notation for the patterns: \<open>r?\<close>, \<open>r+\<close>, \<open>r+?\<close> and \<open>r*\<close>.\<close>

fun seqs :: "rx list \<Rightarrow> rx" where
  "seqs [] = Eps"
| "seqs [r] = r"
| "seqs (r # rs) = Seq r (seqs rs)"

fun alts :: "rx list \<Rightarrow> rx" where
  "alts [] = Eps"
| "alts [r] = r"
| "alts (r # rs) = Alt r (alts rs)"

definition opt :: "rx \<Rightarrow> rx" where
  "opt r = Alt r Eps"

definition many1 :: "rx \<Rightarrow> rx" where
  "many1 r = Seq r (Star True r)"

definition many1_lazy :: "rx \<Rightarrow> rx" where
  "many1_lazy r = Seq r (Star False r)"

definition many :: "rx \<Rightarrow> rx" where
  "many r = Star True r"

section \<open>The message parser (\<open>utils/messageParser.js\<close>)\<close>

text \<open>The table \<open>PATTERNS\<close>; every pattern carries the flag \<open>i\<close>.\<close>

definition PRICE_QUERY :: rx where
  "PRICE_QUERY =
     seqs [alts [seqs [Lit ''what'', opt (Lit [CHR 0x27]), Lit ''s''], Lit ''what is'', Lit ''price of'',
                 Lit ''current price'', Lit ''how much is''],
           many1 (Cls Space), Group 1 (many1_lazy (Cls Any)),
           opt (seqs [many1 (Cls Space), Lit ''trading'', many1 (Cls Space), Lit ''at'']),
           opt (Lit ''?''), Eol]"

definition PRICE_SIMPLE :: rx where
  "PRICE_SIMPLE = seqs [Bol, Group 1 (many1_lazy (Cls Any)), many1 (Cls Space), Lit ''price'', Eol]"

definition PRICE_TRADING :: rx where
  "PRICE_TRADING =
     seqs [alts [seqs [Lit ''what'', opt (Lit [CHR 0x27]), Lit ''s''], Lit ''what is''],
           many1 (Cls Space), Group 1 (many1_lazy (Cls Any)),
           many1 (Cls Space), Lit ''trading'', many1 (Cls Space), Lit ''at'']"

text \<open>The amount \<open>\d+(?:\.\d+)?\<close> of the holding patterns.\<close>

definition NUMBER :: rx where
  "NUMBER = seqs [many1 (Cls Digit), opt (seqs [Lit ''.'', many1 (Cls Digit)])]"

definition ADD_HOLDING :: rx where
  "ADD_HOLDING =
     seqs [alts [Lit ''i have'', Lit ''i own'', Lit ''add'', Lit ''buy'', Lit ''bought''],
           many1 (Cls Space),
           Group 1 NUMBER,
           many1 (Cls Space), Group 2 (many1_lazy (Cls Any)),
           opt (seqs [many1 (Cls Space),
                      alts [seqs [Lit ''coin'', opt (Lit ''s'')], seqs [Lit ''token'', opt (Lit ''s'')]]]),
           Eol]"

definition PORTFOLIO_VALUE :: rx where
  "PORTFOLIO_VALUE =
     alts [Lit ''portfolio'', Lit ''my holdings'', Lit ''total value'', Lit ''how much'',
           seqs [Lit ''what'', opt (Lit [CHR 0x27]), Lit ''s my portfolio worth'']]"

definition TRENDING :: rx where
  "TRENDING =
     seqs [alts [Lit ''trending'', Lit ''hot'', Lit ''popular'', Lit ''top''],
           many (Cls Space),
           opt (alts [seqs [Lit ''coin'', opt (Lit ''s'')], Lit ''crypto'',
                      seqs [Lit ''cryptocurrencie'', opt (Lit ''s'')]])]"

definition CHART_REQUEST :: rx where
  "CHART_REQUEST =
     seqs [alts [Lit ''chart'', Lit ''graph'', Lit ''price chart'', Lit ''show chart''],
           many1 (Cls Space), opt (seqs [Lit ''for'', many1 (Cls Space)]),
           Group 1 (many1_lazy (Cls Any)),
           opt (seqs [many1 (Cls Space),
                      alts [seqs [Lit ''7'', many (Cls Space), Lit ''day'', opt (Lit ''s'')],
                            Lit ''week'', Lit ''weekly'']]),
           Eol]"

definition INFO_REQUEST :: rx where
  "INFO_REQUEST =
     seqs [alts [Lit ''tell me about'', Lit ''info about'', Lit ''information about'', Lit ''what is''],
           many1 (Cls Space), Group 1 (many1 (Cls Any))]"

definition HELP :: rx where
  "HELP = seqs [Bol, alts [Lit ''help'', Lit ''what can you do'', Lit ''commands''], Eol]"

text \<open>\<open>text.match(r)\<close> and \<open>r.test(text)\<close> for a pattern with the flag \<open>i\<close>.\<close>

definition rx_match :: "rx \<Rightarrow> string \<Rightarrow> (nat \<times> string) list option" where
  "rx_match r text = search True r None text"

definition rx_test :: "rx \<Rightarrow> string \<Rightarrow> bool" where
  "rx_test r text = (rx_match r text \<noteq> None)"

definition capture :: "(nat \<times> string) list \<Rightarrow> nat \<Rightarrow> string" where
  "capture caps n = (case map_of caps n of Some s \<Rightarrow> s | None \<Rightarrow> [])"

text \<open>
  \<open>text.replace(r, rep)\<close> for a pattern with the flag \<open>g\<close> and without the flag \<open>i\<close>:
  every match, from left to right, is replaced; after an empty match the next character is
  copied.
\<close>

function replace_from :: "bool \<Rightarrow> rx \<Rightarrow> string \<Rightarrow> char option \<Rightarrow> string \<Rightarrow> string" where
  "replace_from ci r rep prev rest =
     (case matches ci r (prev, rest, []) of
        (prev', rest', _) # _ \<Rightarrow>
          if length rest' < length rest then rep @ replace_from ci r rep prev' rest'
          else (case rest of [] \<Rightarrow> rep | c # cs \<Rightarrow> rep @ c # replace_from ci r rep (Some c) cs)
      | [] \<Rightarrow> (case rest of [] \<Rightarrow> [] | c # cs \<Rightarrow> c # replace_from ci r rep (Some c) cs))"
  by pat_completeness auto
termination
  by (relation "measure (\<lambda>(ci, r, rep, prev, rest). length rest)") auto

declare replace_from.simps [simp del]

definition replace_all :: "rx \<Rightarrow> string \<Rightarrow> string \<Rightarrow> string" where
  "replace_all r rep text = replace_from False r rep None text"

text \<open>\<open>extractCoinName\<close>: the chain of replacements, innermost first.\<close>

definition extractCoinName :: "string \<Rightarrow> string" where
  "extractCoinName text =
     trim
       (replace_all (many1 (Cls Space)) '' ''
         (replace_all (Cls NotWordNorSpace) ''''
           (replace_all (seqs [WordB, Lit ''coin'', WordB, NotAhead (Cls WordCh)]) ''''
             (replace_all (seqs [WordB, Lit ''token'', WordB, NotAhead (Cls WordCh)]) ''''
               (replace_all (seqs [WordB, alts [Lit ''crypto'', Lit ''cryptocurrency''], WordB]) ''''
                 (replace_all
                    (seqs [WordB, alts [Lit ''price'', Lit ''current'', Lit ''trading'', Lit ''at'',
                                       Lit ''now'', Lit ''today'', Lit ''currently''], WordB]) ''''
                    (toLowerCase text)))))))"

text \<open>\<open>normalizeCoinName\<close> of \<open>services/cryptoAPI.js\<close>, the alias resolution.\<close>

definition coinMap :: "(string \<times> string) list" where
  "coinMap =
     [(''btc'', ''bitcoin''), (''bitcoin'', ''bitcoin''), (''eth'', ''ethereum''),
      (''ethereum'', ''ethereum''), (''ada'', ''cardano''), (''cardano'', ''cardano''),
      (''dot'', ''polkadot''), (''polkadot'', ''polkadot''), (''link'', ''chainlink''),
      (''chainlink'', ''chainlink''), (''bnb'', ''binancecoin''), (''binance'', ''binancecoin''),
      (''sol'', ''solana''), (''solana'', ''solana''), (''matic'', ''matic-network''),
      (''polygon'', ''matic-network''), (''avax'', ''avalanche-2''), (''avalanche'', ''avalanche-2''),
      (''luna'', ''terra-luna''), (''doge'', ''dogecoin''), (''dogecoin'', ''dogecoin''),
      (''shib'', ''shiba-inu''), (''shiba'', ''shiba-inu'')]"

definition normalizeCoinName :: "string \<Rightarrow> string" where
  "normalizeCoinName name =
     (case map_of coinMap (toLowerCase name) of Some cid \<Rightarrow> cid | None \<Rightarrow> toLowerCase name)"

definition digit_value :: "char \<Rightarrow> nat" where
  "digit_value c = (case map_of (zip ''0123456789'' [0, 1, 2, 3, 4, 5, 6, 7, 8, 9]) c of Some d \<Rightarrow> d | None \<Rightarrow> 0)"

definition digits_value :: "string \<Rightarrow> nat" where
  "digits_value ds = foldl (\<lambda>n c. 10 * n + digit_value c) 0 ds"

text \<open>
  \<open>parseFloat\<close> on what the first group of the pattern of \<open>extractHoldingInfo\<close> matches:
  digits, and possibly a point and digits.
\<close>

definition parseFloat :: "string \<Rightarrow> real" where
  "parseFloat s =
     (let whole = takeWhile is_digit s; rest = dropWhile is_digit s in
      case rest of
        c # fraction \<Rightarrow>
          if c = CHR ''.'' then
            real (digits_value whole)
              + real (digits_value (takeWhile is_digit fraction)) / 10 ^ length (takeWhile is_digit fraction)
          else real (digits_value whole)
      | [] \<Rightarrow> real (digits_value whole))"


definition HOLDING_INFO :: rx where
  "HOLDING_INFO =
     seqs [Group 1 NUMBER, many1 (Cls Space), Group 2 (many1 (Cls Any))]"

definition extractHoldingInfo :: "string \<Rightarrow> (real \<times> string) option" where
  "extractHoldingInfo text =
     (case rx_match HOLDING_INFO text of
        Some m \<Rightarrow> Some (parseFloat (capture m 1), extractCoinName (capture m 2))
      | None \<Rightarrow> None)"

text \<open>
  The intents: the price query, the chart request and the info request carry \<open>coinName\<close>
  and \<open>originalCoinName\<close>, the holding carries \<open>amount\<close>, \<open>coinName\<close> and
  \<open>originalCoinName\<close>, the general intent carries the message.
\<close>

datatype intent =
    PRICE_QUERY_intent string string
  | ADD_HOLDING_intent real string string
  | PORTFOLIO_VALUE_intent
  | TRENDING_intent
  | CHART_REQUEST_intent string string
  | INFO_REQUEST_intent string string
  | HELP_intent
  | GENERAL_intent string

text \<open>
  \<open>parseMessage\<close>. \<open>parse_rest\<close> is the cascade from the portfolio rule on, which is
  reached when the holding pattern does not match or \<open>extractHoldingInfo\<close> returns
  \<open>null\<close>.
\<close>

definition parse_rest :: "string \<Rightarrow> intent" where
  "parse_rest trimmed =
     (if rx_test PORTFOLIO_VALUE trimmed then PORTFOLIO_VALUE_intent
      else if rx_test TRENDING trimmed then TRENDING_intent
      else case rx_match CHART_REQUEST trimmed of
        Some m \<Rightarrow> CHART_REQUEST_intent (normalizeCoinName (extractCoinName (capture m 1)))
                    (extractCoinName (capture m 1))
      | None \<Rightarrow>
      (case rx_match INFO_REQUEST trimmed of
        Some m \<Rightarrow> INFO_REQUEST_intent (normalizeCoinName (extractCoinName (capture m 1)))
                    (extractCoinName (capture m 1))
      | None \<Rightarrow>
      if rx_test HELP trimmed then HELP_intent
      else GENERAL_intent trimmed))"

definition parseMessage :: "string \<Rightarrow> intent" where
  "parseMessage message =
     (let trimmed = trim message in
      case rx_match PRICE_TRADING trimmed of
        Some m \<Rightarrow> PRICE_QUERY_intent (normalizeCoinName (extractCoinName (capture m 1)))
                    (extractCoinName (capture m 1))
      | None \<Rightarrow>
      (case rx_match PRICE_QUERY trimmed of
        Some m \<Rightarrow> PRICE_QUERY_intent (normalizeCoinName (extractCoinName (capture m 1)))
                    (extractCoinName (capture m 1))
      | None \<Rightarrow>
      (case rx_match PRICE_SIMPLE trimmed of
        Some m \<Rightarrow> PRICE_QUERY_intent (normalizeCoinName (extractCoinName (capture m 1)))
                    (extractCoinName (capture m 1))
      | None \<Rightarrow>
      (case rx_match ADD_HOLDING trimmed of
        Some _ \<Rightarrow>
          (case extractHoldingInfo trimmed of
             Some (amt, nm) \<Rightarrow> ADD_HOLDING_intent amt (normalizeCoinName nm) nm
           | None \<Rightarrow> parse_rest trimmed)
      | None \<Rightarrow> parse_rest trimmed))))"

section \<open>The response generator (\<open>generateResponse\<close>)\<close>

text \<open>
  An asynchronous operation on a world \<open>'w\<close> (the state of the client, of the portfolio
  and of whatever they reach): it ends with a value or with an exception, and leaves a world.
\<close>

type_synonym ('a, 'w) operation = "'w \<Rightarrow> (js_error + 'a) \<times> 'w"

definition return :: "'a \<Rightarrow> ('a, 'w) operation" where
  "return x w = (Inr x, w)"

definition throw :: "js_error \<Rightarrow> ('a, 'w) operation" where
  "throw e w = (Inl e, w)"

definition await :: "('a, 'w) operation \<Rightarrow> ('a \<Rightarrow> ('b, 'w) operation) \<Rightarrow> ('b, 'w) operation" where
  "await m k w = (case m w of (Inl e, w') \<Rightarrow> (Inl e, w') | (Inr x, w') \<Rightarrow> k x w')"

definition try_catch :: "('a, 'w) operation \<Rightarrow> (js_error \<Rightarrow> ('a, 'w) operation) \<Rightarrow> ('a, 'w) operation" where
  "try_catch m handler w = (case m w of (Inl e, w') \<Rightarrow> handler e w' | (Inr x, w') \<Rightarrow> (Inr x, w'))"

text \<open>What the operations of the client return.\<close>

record coin_details =
  details_id :: string
  details_name :: string
  details_symbol :: string
  details_description :: string
  details_currentPrice :: "real option"
  details_marketCap :: "real option"
  details_change24h :: "real option"
  details_volume24h :: "real option"
  details_rank :: "nat option"
  details_image :: "string option"

record coin_ref =
  ref_id :: string
  ref_name :: string
  ref_symbol :: string
  ref_rank :: "nat option"
  ref_thumb :: string

record chart_point =
  point_timestamp :: int
  point_price :: real

text \<open>
  The two collaborators passed to \<open>generateResponse\<close>, with the operations it calls. Any
  of them may throw, and may change the world.
\<close>

record 'w crypto_client =
  client_getCurrentPrice :: "string \<Rightarrow> (price_info, 'w) operation"
  client_getCoinDetails :: "string \<Rightarrow> (coin_details, 'w) operation"
  client_getTrendingCoins :: "(coin_ref list, 'w) operation"
  client_getHistoricalData :: "string \<Rightarrow> nat \<Rightarrow> (chart_point list, 'w) operation"
  client_searchCoins :: "string \<Rightarrow> (coin_ref list, 'w) operation"

record 'w portfolio_hook =
  hook_addHolding :: "string \<Rightarrow> string \<Rightarrow> string \<Rightarrow> real \<Rightarrow> (unit, 'w) operation"
  hook_getPortfolioSummary :: "(summary, 'w) operation"

text \<open>
  The renderings of a number that depend on the runtime and its locale: \<open>toLocaleString()\<close>,
  \<open>toFixed(2)\<close> and the conversion to a string inside a template.
\<close>

record number_format =
  toLocaleString :: "real \<Rightarrow> string"
  toFixed2 :: "real \<Rightarrow> string"
  number_to_string :: "real \<Rightarrow> string"

datatype reply_data =
    PriceData price_info string
  | HoldingData coin_details real
  | SummaryData summary
  | TrendingData "coin_ref list"
  | ChartData "chart_point list" string
  | InfoData coin_details

record reply =
  reply_text :: string
  reply_data :: "reply_data option"
  showChart :: bool
  reply_error :: bool

definition plain_reply :: "string \<Rightarrow> reply_data option \<Rightarrow> reply" where
  "plain_reply t d = \<lparr>reply_text = t, reply_data = d, showChart = False, reply_error = False\<rparr>"

definition chart_reply :: "chart_point list \<Rightarrow> string \<Rightarrow> reply" where
  "chart_reply chartData name =
     \<lparr>reply_text = ''Here's the 7-day price chart for '' @ name @ '':'',
      reply_data = Some (ChartData chartData name), showChart = True, reply_error = False\<rparr>"

text \<open>\<open>Math.abs(x).toFixed(2)\<close> for a change that may be \<open>undefined\<close> or not a number.\<close>

definition abs_fixed2 :: "number_format \<Rightarrow> real option \<Rightarrow> string" where
  "abs_fixed2 fmt x = (case x of Some c \<Rightarrow> toFixed2 fmt \<bar>c\<bar> | None \<Rightarrow> ''NaN'')"

fun jsnum_abs_fixed2 :: "number_format \<Rightarrow> jsnum \<Rightarrow> string" where
  "jsnum_abs_fixed2 fmt (Num c) = toFixed2 fmt \<bar>c\<bar>"
| "jsnum_abs_fixed2 fmt NaN = ''NaN''"
| "jsnum_abs_fixed2 fmt _ = ''Infinity''"

fun jsnum_positive :: "jsnum \<Rightarrow> bool" where
  "jsnum_positive (Num c) = (c > 0)"
| "jsnum_positive PosInfinity = True"
| "jsnum_positive _ = False"

definition ranked_line :: "nat \<times> coin_ref \<Rightarrow> string" where
  "ranked_line ic = (case ic of (index, coin) \<Rightarrow>
     show_nat (index + 1) @ ''. '' @ ref_name coin @ '' ('' @ ref_symbol coin @ '')'')"

definition bullet :: string where
  "bullet = [CHR 0xE2, CHR 0x80, CHR 0xA2]"

definition help_text :: string where
  "help_text =
     ''I can help you with cryptocurrency information! Try asking me:'' @ [CHR 0x0A]
     @ ''          '' @ [CHR 0x0A]
     @ bullet @ '' '' @ [CHR 0x22] @ ''What's Bitcoin trading at?'' @ [CHR 0x22] @ '' - Get current prices'' @ [CHR 0x0A]
     @ bullet @ '' '' @ [CHR 0x22] @ ''I have 2 ETH'' @ [CHR 0x22] @ '' - Add to your portfolio  '' @ [CHR 0x0A]
     @ bullet @ '' '' @ [CHR 0x22] @ ''What's my portfolio worth?'' @ [CHR 0x22] @ '' - Check portfolio value'' @ [CHR 0x0A]
     @ bullet @ '' '' @ [CHR 0x22] @ ''Show me trending coins'' @ [CHR 0x22] @ '' - See what's hot'' @ [CHR 0x0A]
     @ bullet @ '' '' @ [CHR 0x22] @ ''Show chart for Bitcoin'' @ [CHR 0x22] @ '' - View price charts'' @ [CHR 0x0A]
     @ bullet @ '' '' @ [CHR 0x22] @ ''Tell me about Ethereum'' @ [CHR 0x22] @ '' - Get coin information'' @ [CHR 0x0A]
     @ [CHR 0x0A]
     @ ''Just speak naturally - I'll understand!''"

text \<open>
  The \<open>catch\<close> of the chart request: the search for the name as typed, whose own failures
  are logged and dropped, and then the error that names it.
\<close>

definition chart_not_found :: "string \<Rightarrow> js_error" where
  "chart_not_found original =
     Error (''Could not find chart data for '' @ [CHR 0x22] @ original @ [CHR 0x22]
            @ ''. Try using the full name or symbol.'')"

definition chart_fallback :: "'w crypto_client \<Rightarrow> string \<Rightarrow> (reply, 'w) operation" where
  "chart_fallback client original =
     await
       (try_catch
          (await (client_searchCoins client original) (\<lambda>searchResults.
             case searchResults of
               firstResult # _ \<Rightarrow>
                 await (client_getHistoricalData client (ref_id firstResult) 7) (\<lambda>chartData.
                   return (Some (chart_reply chartData (ref_name firstResult))))
             | [] \<Rightarrow> return None))
          (\<lambda>searchError. return None))
       (\<lambda>returned. case returned of Some r \<Rightarrow> return r | None \<Rightarrow> throw (chart_not_found original))"

text \<open>The \<open>switch\<close> inside the \<open>try\<close> of \<open>generateResponse\<close>.\<close>

fun respond :: "number_format \<Rightarrow> 'w crypto_client \<Rightarrow> 'w portfolio_hook \<Rightarrow> intent \<Rightarrow> (reply, 'w) operation" where
  "respond fmt client hook (PRICE_QUERY_intent name original) =
     await (client_getCurrentPrice client name) (\<lambda>priceData.
       let up = (case price_change24h priceData of Some c \<Rightarrow> c > 0 | None \<Rightarrow> False);
           changeText = (if up then ''up'' else ''down'');
           changeColor = (if up then ''positive'' else ''negative'')
       in return (plain_reply
            (toUpperCase original @ '' is currently trading at $''
               @ toLocaleString fmt (price priceData) @ '' ('' @ changeText @ '' ''
               @ abs_fixed2 fmt (price_change24h priceData) @ ''% in 24h)'')
            (Some (PriceData priceData changeColor))))"
| "respond fmt client hook (ADD_HOLDING_intent amt name original) =
     await (client_getCoinDetails client name) (\<lambda>coinDetails.
     await (hook_addHolding hook name (details_name coinDetails) (details_symbol coinDetails) amt) (\<lambda>_.
       return (plain_reply
         (''Added '' @ number_to_string fmt amt @ '' '' @ details_symbol coinDetails
            @ '' to your portfolio! Current value: $''
            @ (case details_currentPrice coinDetails of
                 Some p \<Rightarrow> toLocaleString fmt (amt * p)
               | None \<Rightarrow> ''NaN''))
         (Some (HoldingData coinDetails amt)))))"
| "respond fmt client hook PORTFOLIO_VALUE_intent =
     await (hook_getPortfolioSummary hook) (\<lambda>summ.
       if totalCoins summ = 0
       then return (plain_reply
              (''Your portfolio is empty. Try adding some holdings by saying something like 'I have 2 ETH''
                 @ [CHR 0x27])
              None)
       else return (plain_reply
              (''Your portfolio is worth $'' @ toLocaleString fmt (totalValue summ) @ '' across ''
                 @ show_nat (totalCoins summ) @ '' different cryptocurrencies (''
                 @ (if jsnum_positive (summary_change24h summ) then ''up'' else ''down'') @ '' ''
                 @ jsnum_abs_fixed2 fmt (summary_change24h summ) @ ''% today)'')
              (Some (SummaryData summ))))"
| "respond fmt client hook TRENDING_intent =
     await (client_getTrendingCoins client) (\<lambda>trending.
       return (plain_reply
         (''Here are today's top trending cryptocurrencies:'' @ [CHR 0x0A, CHR 0x0A]
            @ join [CHR 0x0A] (map ranked_line (enumerate 0 (take 5 trending))))
         (Some (TrendingData trending))))"
| "respond fmt client hook (CHART_REQUEST_intent name original) =
     try_catch
       (await (client_getCoinDetails client name) (\<lambda>coinDetails.
        await (client_getHistoricalData client name 7) (\<lambda>chartData.
          return (chart_reply chartData (details_name coinDetails)))))
       (\<lambda>error. chart_fallback client original)"
| "respond fmt client hook (INFO_REQUEST_intent name original) =
     await (client_getCoinDetails client name) (\<lambda>info.
       return (plain_reply
         (details_name info @ '' ('' @ details_symbol info @ '') is currently ranked #''
            @ (case details_rank info of Some n \<Rightarrow> show_nat n | None \<Rightarrow> ''null'')
            @ '' with a market cap of $''
            @ (case details_marketCap info of
                 Some m \<Rightarrow> (if toLocaleString fmt m = [] then ''N/A'' else toLocaleString fmt m)
               | None \<Rightarrow> ''N/A'')
            @ ''. '' @ details_description info)
         (Some (InfoData info))))"
| "respond fmt client hook HELP_intent = return (plain_reply help_text None)"
| "respond fmt client hook (GENERAL_intent _) =
     return (plain_reply
       ''I'm not sure how to help with that. Try asking about cryptocurrency prices, your portfolio, or trending coins. Say 'help' to see what I can do!''
       None)"

definition error_reply :: "string \<Rightarrow> reply" where
  "error_reply m =
     \<lparr>reply_text = ''Sorry, I encountered an error: '' @ m @ ''. Please try again.'',
      reply_data = None, showChart = False, reply_error = True\<rparr>"

definition generateResponse ::
  "number_format \<Rightarrow> 'w crypto_client \<Rightarrow> 'w portfolio_hook \<Rightarrow> intent \<Rightarrow> (reply, 'w) operation" where
  "generateResponse fmt client hook intent =
     try_catch (respond fmt client hook intent)
       (\<lambda>error. case error of Error m \<Rightarrow> return (error_reply m))"





subsection \<open>The weighted average of the specification\<close>

text \<open>
  The aggregate change as the specification words it: the average of the changes of the
  holdings that have a change and a value, weighted by value, over those holdings only.
\<close>

definition has_change_and_value :: "holding \<Rightarrow> bool" where
  "has_change_and_value h = (change24h h \<noteq> None \<and> currentValue h \<noteq> None)"

definition spec_weighted_average :: "holding list \<Rightarrow> real" where
  "spec_weighted_average hs =
     (let valid = filter has_change_and_value hs in
      sum_list (map (\<lambda>h. the (change24h h) * the (currentValue h)) valid)
        / sum_list (map (\<lambda>h. the (currentValue h)) valid))"

text \<open>
  A portfolio of one bitcoin and one ether, valued twice: the source first answers for both
  coins, then for bitcoin only.
\<close>

definition prices_both :: prices where
  "prices_both =
     [''bitcoin'' \<mapsto> \<lparr>usd = 100, usd_24h_change = Some 10, usd_market_cap = None\<rparr>,
      ''ethereum'' \<mapsto> \<lparr>usd = 100, usd_24h_change = Some 10, usd_market_cap = None\<rparr>]"

definition prices_bitcoin_only :: prices where
  "prices_bitcoin_only =
     [''bitcoin'' \<mapsto> \<lparr>usd = 100, usd_24h_change = Some 10, usd_market_cap = None\<rparr>]"

definition two_coins :: "holding list" where
  "two_coins =
     addHolding ''ethereum'' ''Ethereum'' ''eth'' 1 2000
       (addHolding ''bitcoin'' ''Bitcoin'' ''btc'' 1 1000 [])"

definition revalued_twice :: portfolio where
  "revalued_twice =
     calculatePortfolioValue (Inr prices_bitcoin_only) 4000
       (calculatePortfolioValue (Inr prices_both) 3000 (new_portfolio\<lparr>holdings := two_coins\<rparr>))"

section \<open>Properties\<close>

subsection \<open>The response cache\<close>

text \<open>
  Claim C5. A \<open>getFromCache\<close> at the time of the \<open>setCache\<close> of the same key returns the
  stored value and leaves the cache as it is, and so does one less than five minutes
  (300000 ms) later; one at or after five minutes returns \<open>null\<close> and deletes the entry.
\<close>

theorem C5_cache_get_after_put:
  "getFromCache key t (setCache key v t s) = (Some v, setCache key v t s)
   \<and> (t' - t < 300000 \<longrightarrow>
        getFromCache key t' (setCache key v t s) = (Some v, setCache key v t s))
   \<and> (t + 300000 \<le> t' \<longrightarrow>
        fst (getFromCache key t' (setCache key v t s)) = None
        \<and> cache (snd (getFromCache key t' (setCache key v t s))) key = None)"
  by (simp add: getFromCache_def setCache_def cacheTimeout_def)

theorem C5_cache_get_after_put_witness:
  "(299999 - 0 < (300000::int)
    \<and> getFromCache ''/global_{}'' 299999 (setCache ''/global_{}'' (JStr ''x'') 0 new_ApiManager)
        = (Some (JStr ''x''), setCache ''/global_{}'' (JStr ''x'') 0 new_ApiManager))
   \<and> ((0::int) + 300000 \<le> 300000
    \<and> fst (getFromCache ''/global_{}'' 300000 (setCache ''/global_{}'' (JStr ''x'') 0 new_ApiManager)) = None
    \<and> cache (snd (getFromCache ''/global_{}'' 300000 (setCache ''/global_{}'' (JStr ''x'') 0 new_ApiManager)))
        ''/global_{}'' = None)"
  using C5_cache_get_after_put [of "''/global_{}''" 0 "JStr ''x''" new_ApiManager 299999]
    C5_cache_get_after_put [of "''/global_{}''" 0 "JStr ''x''" new_ApiManager 300000]
  by simp

subsection \<open>Search with a short query\<close>

text \<open>
  Claim C10. For a query that is absent, empty or shorter than two characters, \<open>searchCoins\<close>
  returns \<open>{ coins: [] }\<close>, whatever the transport would answer: nothing is handed to the
  transport, and the cache and the rate limiter are left as they were.
\<close>

theorem C10_searchCoins_short_query:
  "(case query of None \<Rightarrow> True | Some q \<Rightarrow> length q < 2)
   \<Longrightarrow> searchCoins net query t0 t1 s = (Inr (JObj [(''coins'', JArr [])]), s, [])"
  by (auto simp: searchCoins_def split: option.splits)

theorem C10_searchCoins_short_query_witness:
  "searchCoins (\<lambda>_. Inl NoResponse) None 0 1 new_ApiManager
     = (Inr (JObj [(''coins'', JArr [])]), new_ApiManager, [])
   \<and> searchCoins (\<lambda>_. Inr JNull) (Some ''b'') 0 1 new_ApiManager
     = (Inr (JObj [(''coins'', JArr [])]), new_ApiManager, [])"
  using C10_searchCoins_short_query [of None "\<lambda>_. Inl NoResponse" 0 1 new_ApiManager]
    C10_searchCoins_short_query [of "Some ''b''" "\<lambda>_. Inr JNull" 0 1 new_ApiManager]
  by simp

subsection \<open>The rate limiters\<close>

text \<open>
  Claim C1. The limiter of the API manager keys its map by the timestamp, so requests of one
  millisecond share an entry and count once: of 51 requests made in the same millisecond to
  a fresh manager, all 51 are admitted, one more than the ceiling of 50.
\<close>

theorem C1_same_millisecond_admissions:
  "attempts (replicate 51 1000) new_ApiManager = replicate 51 True"
  by (simp add: numeral_eq_Suc handleRateLimit_def new_ApiManager_def map_set_def
      maxRequestsPerMinute_def)

text \<open>The limiter of the direct client keeps a list: the eleventh request is refused.\<close>

lemma client_eleventh_refused:
  "client_attempts (replicate 11 1000) new_RateLimiter = replicate 10 True @ [False]"
  by (simp add: numeral_eq_Suc request_interceptor_def canMakeRequest_def recordRequest_def
      new_RateLimiter_def)

text \<open>
  For requests at non-decreasing times, no window of 60 seconds holds more than ten
  admitted requests of the direct client, and once every recorded request is a full window
  old the next request is admitted.
\<close>

lemma client_admitted_subset: "set (client_admitted ts rl) \<subseteq> set ts"
proof (induction ts arbitrary: rl)
  case Nil
  then show ?case by simp
next
  case (Cons t ts)
  obtain r rl' where step: "request_interceptor t rl = (r, rl')"
    by (cases "request_interceptor t rl")
  with Cons.IH [of rl'] show ?case by (cases r) auto
qed

lemma filter_split_length:
  "length (filter P xs) = length (filter P (filter Q xs)) + length (filter P (filter (\<lambda>x. \<not> Q x) xs))"
  by (induction xs) auto

lemma client_window_invariant:
  assumes "maxRequests rl = 10" "windowMs rl = 60000" "sorted (requests rl @ ts)"
    and "\<forall>w. length (filter (in_window w) (requests rl)) \<le> 10"
  shows "length (filter (in_window w) (requests rl @ client_admitted ts rl)) \<le> 10"
  using assms
proof (induction ts arbitrary: rl w)
  case Nil
  then show ?case by simp
next
  case (Cons t ts)
  let ?R = "requests rl"
  let ?kept = "filter (\<lambda>time. t - time < 60000) ?R"
  let ?dropped = "filter (\<lambda>time. \<not> t - time < 60000) ?R"
  have le_t: "\<forall>r\<in>set ?R. r \<le> t" using Cons.prems(3) by (auto simp: sorted_append)
  have ge_t: "\<forall>x\<in>set ts. t \<le> x" using Cons.prems(3) by (auto simp: sorted_append)
  have sorted_kept: "sorted (?kept @ t # ts)"
    using Cons.prems(3) by (auto simp: sorted_append sorted_wrt_filter)
  have split: "length (filter (in_window w) ?R)
      = length (filter (in_window w) ?kept) + length (filter (in_window w) ?dropped)"
    by (rule filter_split_length)
  show ?case
  proof (cases "length ?kept < 10")
    case True
    let ?rl' = "rl\<lparr>requests := ?kept @ [t]\<rparr>"
    have step: "request_interceptor t rl = (Inr (), ?rl')"
      using True Cons.prems(1,2) by (simp add: request_interceptor_def canMakeRequest_def recordRequest_def)
    let ?A = "client_admitted ts ?rl'"
    have adm: "client_admitted (t # ts) rl = t # ?A" using step by simp
    have "\<forall>w. length (filter (in_window w) (requests ?rl')) \<le> 10"
    proof
      fix w
      have "length (filter (in_window w) (?kept @ [t])) \<le> length (?kept @ [t])" by (rule length_filter_le)
      with True show "length (filter (in_window w) (requests ?rl')) \<le> 10" by simp
    qed
    with Cons.IH [of ?rl' w] Cons.prems(1,2) sorted_kept
    have ih: "length (filter (in_window w) (?kept @ t # ?A)) \<le> 10" by simp
    show ?thesis
    proof (cases "\<exists>d\<in>set ?dropped. in_window w d")
      case True
      then obtain d where d: "d \<in> set ?R" "\<not> t - d < 60000" "in_window w d" by auto
      then have "w + 60000 \<le> t" by (simp add: in_window_def)
      moreover have "\<forall>x\<in>set (t # ?A). t \<le> x" using ge_t client_admitted_subset [of ts ?rl'] by auto
      ultimately have "filter (in_window w) (t # ?A) = []"
        by (auto simp: filter_empty_conv in_window_def)
      with spec [OF Cons.prems(4), of w] adm show ?thesis by simp
    next
      case False
      then have "filter (in_window w) ?dropped = []" by (simp add: filter_empty_conv)
      with split ih adm show ?thesis by simp
    qed
  next
    case False
    let ?rl' = "rl\<lparr>requests := ?kept\<rparr>"
    have step: "fst (request_interceptor t rl) = Inl (Error ''Rate limit exceeded. Please wait a moment.'')"
      "snd (request_interceptor t rl) = ?rl'"
      using False Cons.prems(1,2) by (simp_all add: request_interceptor_def canMakeRequest_def)
    let ?A = "client_admitted ts ?rl'"
    have adm: "client_admitted (t # ts) rl = ?A" using step by (cases "request_interceptor t rl") auto
    have "\<forall>w. length (filter (in_window w) (requests ?rl')) \<le> 10"
    proof
      fix w
      have "length (filter (in_window w) ?R)
         = length (filter (in_window w) ?kept) + length (filter (in_window w) ?dropped)"
        by (rule filter_split_length)
      with spec [OF Cons.prems(4), of w] have "length (filter (in_window w) ?kept) \<le> 10"
        by linarith
      then show "length (filter (in_window w) (requests ?rl')) \<le> 10" by simp
    qed
    moreover have "sorted (?kept @ ts)" using sorted_kept by (auto simp: sorted_append)
    ultimately have ih: "length (filter (in_window w) (?kept @ ?A)) \<le> 10"
      using Cons.IH [of ?rl' w] Cons.prems(1,2) by simp
    show ?thesis
    proof (cases "\<exists>d\<in>set ?dropped. in_window w d")
      case True
      then obtain d where d: "d \<in> set ?R" "\<not> t - d < 60000" "in_window w d" by auto
      then have "w + 60000 \<le> t" by (simp add: in_window_def)
      moreover have "\<forall>x\<in>set ?A. t \<le> x" using ge_t client_admitted_subset [of ts ?rl'] by auto
      ultimately have "filter (in_window w) ?A = []"
        by (auto simp: filter_empty_conv in_window_def)
      with spec [OF Cons.prems(4), of w] adm show ?thesis by simp
    next
      case False
      then have "filter (in_window w) ?dropped = []" by (simp add: filter_empty_conv)
      with split ih adm show ?thesis by simp
    qed
  qed
qed

lemma client_window_bound:
  "sorted ts \<Longrightarrow> length (filter (in_window w) (client_admitted ts new_RateLimiter)) \<le> 10"
  using client_window_invariant [of new_RateLimiter ts w] by (simp add: new_RateLimiter_def)

lemma client_admits_after_window:
  assumes "0 < maxRequests rl" "\<forall>time\<in>set (requests rl). windowMs rl \<le> now - time"
  shows "request_interceptor now rl = (Inr (), rl\<lparr>requests := [now]\<rparr>)"
proof -
  from assms(2) have "filter (\<lambda>time. now - time < windowMs rl) (requests rl) = []"
    by (auto simp: filter_empty_conv)
  with assms(1) show ?thesis
    by (simp add: request_interceptor_def canMakeRequest_def recordRequest_def)
qed

subsection \<open>The cache key\<close>





subsection \<open>Adding a holding\<close>

lemma findIndex_None: "findIndex P xs = None \<longleftrightarrow> (\<forall>x\<in>set xs. \<not> P x)"
  by (induction xs) auto

lemma findIndex_Some:
  "findIndex P xs = Some i \<Longrightarrow> i < length xs \<and> P (xs ! i) \<and> (\<forall>j<i. \<not> P (xs ! j))"
proof (induction xs arbitrary: i)
  case Nil
  then show ?case by simp
next
  case (Cons x xs)
  show ?case
  proof (cases "P x")
    case True
    with Cons.prems show ?thesis by simp
  next
    case False
    with Cons.prems obtain k where k: "findIndex P xs = Some k" "i = Suc k" by auto
    from Cons.IH [OF k(1)] False k(2) show ?thesis by (auto simp: less_Suc_eq_0_disj)
  qed
qed

lemma addHolding_fresh:
  "\<forall>h\<in>set hs. coinId h \<noteq> c \<Longrightarrow>
   addHolding c n s a t hs =
     hs @ [\<lparr>hid = show_int t, coinId = c, coinName = n, coinSymbol = toUpperCase s,
            amount = a, currentPrice = None, currentValue = None, change24h = None,
            addedAt = t, lastUpdated = t\<rparr>]"
  using findIndex_None [of "\<lambda>h. coinId h = c" hs] by (simp add: addHolding_def)

lemma map_coinId_addHolding:
  "map coinId (addHolding c n s a t hs) =
     (if c \<in> set (map coinId hs) then map coinId hs else map coinId hs @ [c])"
proof (cases "findIndex (\<lambda>h. coinId h = c) hs")
  case None
  then have "\<forall>h\<in>set hs. coinId h \<noteq> c" by (simp add: findIndex_None)
  then show ?thesis using addHolding_fresh by auto
next
  case (Some i)
  from findIndex_Some [OF Some] have i: "i < length hs" "coinId (hs ! i) = c" by auto
  then have "c \<in> set (map coinId hs)" by (metis length_map nth_map nth_mem)
  moreover have "map coinId (hs[i := (hs ! i)\<lparr>amount := amount (hs ! i) + a, lastUpdated := t\<rparr>])
      = map coinId hs"
    using i by (simp add: map_update list_update_same_conv)
  ultimately show ?thesis using Some by (simp add: addHolding_def)
qed

lemma find_filter_conv: "find P xs = (case filter P xs of [] \<Rightarrow> None | x # _ \<Rightarrow> Some x)"
  by (induction xs) auto

lemma filter_update_distinct:
  "distinct (map f hs) \<Longrightarrow> i < length hs \<Longrightarrow> f (hs ! i) = c \<Longrightarrow> f h' = c
   \<Longrightarrow> filter (\<lambda>h. f h = c) (hs[i := h']) = [h'] \<and> filter (\<lambda>h. f h = c) hs = [hs ! i]"
proof (induction hs arbitrary: i)
  case Nil
  then show ?case by simp
next
  case (Cons x xs)
  show ?case
  proof (cases i)
    case 0
    with Cons.prems have "f x = c" "\<forall>y\<in>set xs. f y \<noteq> c" by (auto simp: image_iff)
    then have "filter (\<lambda>h. f h = c) xs = []" by (simp add: filter_empty_conv)
    with 0 Cons.prems show ?thesis by simp
  next
    case (Suc k)
    with Cons.prems have k: "k < length xs" "f (xs ! k) = c" and d: "distinct (map f xs)" by auto
    then have "xs ! k \<in> set xs" by simp
    with Cons.prems(1) k have "f x \<noteq> c" by force
    with Cons.IH [OF d k(1) k(2) Cons.prems(4)] Suc show ?thesis by simp
  qed
qed

lemma addHolding_once:
  assumes "distinct (map coinId hs)"
  shows "\<exists>h. filter (\<lambda>h. coinId h = c) (addHolding c n s a t hs) = [h] \<and> lastUpdated h = t
           \<and> amount h = (case find (\<lambda>h. coinId h = c) hs of None \<Rightarrow> a | Some h0 \<Rightarrow> amount h0 + a)"
proof (cases "findIndex (\<lambda>h. coinId h = c) hs")
  case None
  then have fresh: "\<forall>h\<in>set hs. coinId h \<noteq> c" by (simp add: findIndex_None)
  then have "filter (\<lambda>h. coinId h = c) hs = []" by (simp add: filter_empty_conv)
  then show ?thesis using addHolding_fresh [OF fresh] by (simp add: find_filter_conv)
next
  case (Some i)
  from findIndex_Some [OF Some] have i: "i < length hs" "coinId (hs ! i) = c" by auto
  let ?h = "(hs ! i)\<lparr>amount := amount (hs ! i) + a, lastUpdated := t\<rparr>"
  have "coinId ?h = c" using i by simp
  from filter_update_distinct [OF assms i this]
  show ?thesis using Some by (simp add: addHolding_def find_filter_conv)
qed

lemma addHolding_distinct:
  "distinct (map coinId hs) \<Longrightarrow> distinct (map coinId (addHolding c n s a t hs))"
  by (simp add: map_coinId_addHolding)

text \<open>
  Claim C7. In a portfolio with at most one holding per coin, two calls of \<open>addHolding\<close> for
  the coin \<open>c\<close>, with amounts \<open>a\<close> and \<open>b\<close> at times \<open>t1\<close> and \<open>t2\<close>, leave at most one
  holding per coin and exactly one for \<open>c\<close>: its \<open>lastUpdated\<close> is \<open>t2\<close>, and its amount is
  \<open>a + b\<close> when \<open>c\<close> was not held before, and \<open>a + b\<close> more than before otherwise.
\<close>

theorem C7_addHolding_twice:
  assumes "distinct (map coinId hs)"
  shows "distinct (map coinId (addHolding c n2 s2 b t2 (addHolding c n1 s1 a t1 hs)))
     \<and> (\<exists>h. filter (\<lambda>h. coinId h = c) (addHolding c n2 s2 b t2 (addHolding c n1 s1 a t1 hs)) = [h]
            \<and> lastUpdated h = t2
            \<and> amount h = (case find (\<lambda>h. coinId h = c) hs of
                            None \<Rightarrow> a + b
                          | Some h0 \<Rightarrow> amount h0 + a + b))"
proof -
  let ?hs1 = "addHolding c n1 s1 a t1 hs"
  have d1: "distinct (map coinId ?hs1)" using assms by (rule addHolding_distinct)
  from addHolding_once [OF assms, of c n1 s1 a t1] obtain h1 where
    h1: "filter (\<lambda>h. coinId h = c) ?hs1 = [h1]"
      "amount h1 = (case find (\<lambda>h. coinId h = c) hs of None \<Rightarrow> a | Some h0 \<Rightarrow> amount h0 + a)"
    by blast
  then have f1: "find (\<lambda>h. coinId h = c) ?hs1 = Some h1" by (simp add: find_filter_conv)
  from addHolding_once [OF d1, of c n2 s2 b t2] f1 h1(2) addHolding_distinct [OF d1]
  show ?thesis by (auto split: option.splits)
qed

theorem C7_addHolding_twice_witness:
  "distinct (map coinId ([] :: holding list))
   \<and> distinct (map coinId (addHolding ''bitcoin'' ''Bitcoin'' ''btc'' 3 2000
                             (addHolding ''bitcoin'' ''Bitcoin'' ''btc'' 2 1000 [])))
   \<and> (\<exists>h. filter (\<lambda>h. coinId h = ''bitcoin'')
              (addHolding ''bitcoin'' ''Bitcoin'' ''btc'' 3 2000
                 (addHolding ''bitcoin'' ''Bitcoin'' ''btc'' 2 1000 [])) = [h]
          \<and> lastUpdated h = 2000 \<and> amount h = 5)"
  using C7_addHolding_twice [of "[]" "''bitcoin''" "''Bitcoin''" "''btc''" 3 2000 "''Bitcoin''" "''btc''" 2 1000]
  by simp

subsection \<open>The aggregate change of the summary\<close>

lemma fold_summary_step:
  "fold summary_step hs (x, n) =
     (x + sum_list (map (\<lambda>h. (the (change24h h) / 100) * the (currentValue h)) (filter counts hs)),
      n + length (filter counts hs))"
  by (induction hs arbitrary: x n) (auto simp: summary_step_def)

lemma sum_list_hundredth:
  "sum_list (map (\<lambda>h. f h * g h / 100) hs) = sum_list (map (\<lambda>h. f h * g h) hs) / (100::real)"
  by (induction hs) (simp_all add: field_simps)

lemma counts_has_data: "counts h \<Longrightarrow> has_change_and_value h"
  by (auto simp: counts_def has_change_and_value_def split: option.splits)

text \<open>
  When every holding has a change and a value, and the total kept by the hook is the sum of
  these values, the summary reports the weighted average.
\<close>

lemma summary_change_when_consistent:
  assumes all: "\<forall>h\<in>set (holdings p). counts h" and ne: "holdings p \<noteq> []"
    and total: "portfolioValue p = sum_list (map (\<lambda>h. the (currentValue h)) (holdings p))"
    and nz: "portfolioValue p \<noteq> 0"
  shows "summary_change24h (getPortfolioSummary p) = Num (spec_weighted_average (holdings p))"
proof -
  from all have f1: "filter counts (holdings p) = holdings p" by (simp add: filter_id_conv)
  from all have f2: "filter has_change_and_value (holdings p) = holdings p"
    by (simp add: filter_id_conv counts_has_data)
  from ne have "length (holdings p) > 0" by simp
  then show ?thesis
    using nz total
    by (simp add: getPortfolioSummary_def fold_summary_step f1 f2 sum_list_hundredth js_div_def
        spec_weighted_average_def Let_def)
qed

text \<open>
  Claim C3. After the second valuation the ether holding keeps the value and the change of
  the first, and the total counts bitcoin only: both holdings changed by 10 percent, their
  weighted average is 10, and the summary reports 20.
\<close>

theorem C3_summary_change_of_stale_holding:
  "map change24h (holdings revalued_twice) = [Some 10, Some 10]
   \<and> map currentValue (holdings revalued_twice) = [Some 100, Some 100]
   \<and> portfolioValue revalued_twice = 100
   \<and> spec_weighted_average (holdings revalued_twice) = 10
   \<and> summary_change24h (getPortfolioSummary revalued_twice) = Num 20"
  by (simp add: revalued_twice_def two_coins_def prices_both_def prices_bitcoin_only_def
      getPortfolioSummary_def calculatePortfolioValue_def addHolding_def new_portfolio_def
      revalue_def valued_total_def summary_step_def counts_def js_div_def
      spec_weighted_average_def has_change_and_value_def)

subsection \<open>The current price\<close>



subsection \<open>The matcher\<close>

text \<open>
  The first match of a sequence, of an alternative and of a group follows from the first
  matches of the parts; a greedy repetition of a class first takes the whole run of
  characters of the class.
\<close>

lemmas matches_Star = matches.simps(6)








lemma star_greedy_first:
  "\<forall>c\<in>set A. in_cls k c \<Longrightarrow> B = [] \<or> \<not> in_cls k (hd B)
   \<Longrightarrow> first_match ci (Star True (Cls k)) (p, A @ B, caps)
       = Some (if A = [] then p else Some (last A), B, caps)"
proof (induction A arbitrary: p)
  case Nil
  then show ?case by (cases B) (simp_all add: first_match_def matches_Star)
next
  case (Cons a A)
  from Cons.prems have "first_match ci (Star True (Cls k)) (Some a, A @ B, caps)
       = Some (if A = [] then Some a else Some (last A), B, caps)"
    using Cons.IH [of "Some a"] by simp
  then obtain more where m: "matches ci (Star True (Cls k)) (Some a, A @ B, caps)
       = (if A = [] then Some a else Some (last A), B, caps) # more"
    by (auto simp: first_match_def split: list.splits)
  have "matches ci (Star True (Cls k)) (p, (a # A) @ B, caps)
     = matches ci (Star True (Cls k)) (Some a, A @ B, caps) @ [(p, (a # A) @ B, caps)]"
    using Cons.prems by (subst matches_Star) simp
  with m show ?case by (simp add: first_match_def)
qed


lemma many1_greedy_first:
  assumes "A \<noteq> []" "\<forall>c\<in>set A. in_cls k c" "B = [] \<or> \<not> in_cls k (hd B)"
  shows "first_match ci (many1 (Cls k)) (p, A @ B, caps) = Some (Some (last A), B, caps)"
proof -
  from assms obtain c A' where A: "A = c # A'" by (cases A) auto
  from assms A have "first_match ci (Star True (Cls k)) (Some c, A' @ B, caps)
       = Some (if A' = [] then Some c else Some (last A'), B, caps)"
    using star_greedy_first [of A' k B ci "Some c" caps] by simp
  moreover have "matches ci (many1 (Cls k)) (p, A @ B, caps)
      = matches ci (Star True (Cls k)) (Some c, A' @ B, caps)"
    using assms A by (simp add: many1_def)
  ultimately show ?thesis using A by (simp add: first_match_def)
qed


text \<open>
  A literal under the flag \<open>i\<close> matches a text exactly when the text starts with the literal
  up to letter case.
\<close>

lemma lit_match_append:
  "map to_lower K = map to_lower s
   \<Longrightarrow> lit_match True s prev (K @ R) = Some (if K = [] then prev else Some (last K), R)"
proof (induction s arbitrary: K prev)
  case Nil
  then show ?case by simp
next
  case (Cons x s)
  then obtain c K' where K: "K = c # K'" "to_lower c = to_lower x" "map to_lower K' = map to_lower s"
    by (cases K) auto
  with Cons.IH [of K' "Some c"] show ?case by simp
qed



lemma lit_yes_match:
  assumes "map to_lower K = kw" "map to_lower kw = kw" "kw \<noteq> []"
  shows "lit_match True kw prev (K @ R) = Some (Some (last K), R)"
  using lit_match_append [of K kw prev R] assms by auto

text \<open>
  On one of the four phrases of the info pattern followed by white space and a text, the
  pattern matches at the start, and its group is the text up to the first line break.
\<close>

lemma lower_keywords:
  "map to_lower ''tell me about'' = ''tell me about''"
  "map to_lower ''info about'' = ''info about''"
  "map to_lower ''information about'' = ''information about''"
  "map to_lower ''what is'' = ''what is''"
  by code_simp+







text \<open>Ways through a pattern that need not be the first: they show that it matches.\<close>

lemma first_match_in: "first_match ci r st = Some s \<Longrightarrow> s \<in> set (matches ci r st)"
  by (auto simp: first_match_def split: list.splits)

lemma in_Seq:
  "s1 \<in> set (matches ci a st) \<Longrightarrow> s2 \<in> set (matches ci b s1) \<Longrightarrow> s2 \<in> set (matches ci (Seq a b) st)"
  by auto

lemma in_star_cls:
  "\<forall>c\<in>set A. in_cls k c
   \<Longrightarrow> (if A = [] then p else Some (last A), B, caps) \<in> set (matches ci (Star g (Cls k)) (p, A @ B, caps))"
proof (induction A arbitrary: p)
  case Nil
  show ?case by (subst matches_Star) (simp add: Let_def)
next
  case (Cons a A)
  from Cons.prems Cons.IH [of "Some a"]
  have "(if A = [] then Some a else Some (last A), B, caps)
          \<in> set (matches ci (Star g (Cls k)) (Some a, A @ B, caps))" by simp
  with Cons.prems show ?case by (subst matches_Star) (auto simp: Let_def split: if_splits)
qed

lemma in_many1_lazy_cls:
  assumes "A \<noteq> []" "\<forall>c\<in>set A. in_cls k c"
  shows "(Some (last A), B, caps) \<in> set (matches ci (many1_lazy (Cls k)) (p, A @ B, caps))"
proof -
  from assms obtain c A' where A: "A = c # A'" by (cases A) auto
  with assms in_star_cls [of A' k "Some c" B caps ci False] show ?thesis
    by (auto simp: many1_lazy_def split: if_splits)
qed

lemma search_nonempty: "matches ci r (prev, rest, []) \<noteq> [] \<Longrightarrow> search ci r prev rest \<noteq> None"
  by (subst search.simps) (auto split: list.splits)









lemma in_Group:
  "(p', rest', caps') \<in> set (matches ci r (p, rest, caps))
   \<Longrightarrow> (p', rest', (n, take (length rest - length rest') rest) # caps') \<in> set (matches ci (Group n r) (p, rest, caps))"
  by force





















text \<open>
  The generic price pattern lists the phrase what is as well: a message of that phrase,
  white space and a text on one line is always a price query.
\<close>

lemma in_opt: "s \<in> set (matches ci (opt r) s)"
  by (simp add: opt_def)

lemma price_query_what_is:
  assumes K: "map to_lower K = ''what is''"
    and W: "W \<noteq> []" "\<forall>c\<in>set W. is_space c"
    and X: "X \<noteq> []" "\<not> is_space (hd X)" "\<forall>c\<in>set X. \<not> is_line_terminator c"
  shows "rx_match PRICE_QUERY (K @ W @ X) \<noteq> None"
proof -
  let ?s1 = "(Some (last K), W @ X, [])"
  let ?s2 = "(Some (last W), X, [])"
  let ?s3 = "(Some (last X), [], [(1, X)])"
  have "lit_match True ''what is'' None (K @ W @ X) = Some (Some (last K), W @ X)"
    by (rule lit_yes_match [OF K lower_keywords(4)]) simp
  then have 1: "?s1 \<in> set (matches True
            (alts [seqs [Lit ''what'', opt (Lit [CHR 0x27]), Lit ''s''], Lit ''what is'', Lit ''price of'',
                   Lit ''current price'', Lit ''how much is''])
            (None, K @ W @ X, []))"
    by (simp del: seqs.simps)
  have "first_match True (many1 (Cls Space)) ?s1 = Some ?s2"
    using W X by (intro many1_greedy_first) auto
  then have 2: "?s2 \<in> set (matches True (many1 (Cls Space)) ?s1)" by (rule first_match_in)
  have "(Some (last X), [], []) \<in> set (matches True (many1_lazy (Cls Any)) (Some (last W), X @ [], []))"
    using X by (intro in_many1_lazy_cls) auto
  from in_Group [OF this, of 1]
  have 3: "?s3 \<in> set (matches True (Group 1 (many1_lazy (Cls Any))) ?s2)" by simp
  have 6: "?s3 \<in> set (matches True Eol ?s3)" by simp
  have "?s3 \<in> set (matches True PRICE_QUERY (None, K @ W @ X, []))"
    unfolding PRICE_QUERY_def seqs.simps
    by (intro in_Seq [OF 1 [unfolded seqs.simps]] in_Seq [OF 2] in_Seq [OF 3] in_Seq [OF in_opt] in_Seq [OF in_opt]) simp
  then have "matches True PRICE_QUERY (None, K @ W @ X, []) \<noteq> []" by auto
  then show ?thesis unfolding rx_match_def by (rule search_nonempty)
qed

lemma what_is_price_query:
  assumes form: "trim message = K @ W @ X"
    and K: "map to_lower K = ''what is''"
    and W: "W \<noteq> []" "\<forall>c\<in>set W. is_space c"
    and X: "X \<noteq> []" "\<not> is_space (hd X)" "\<forall>c\<in>set X. \<not> is_line_terminator c"
  shows "\<exists>c n. parseMessage message = PRICE_QUERY_intent c n"
proof -
  have "rx_match PRICE_QUERY (trim message) \<noteq> None"
    unfolding form by (rule price_query_what_is [OF K W X])
  then show ?thesis
    by (cases "rx_match PRICE_TRADING (trim message)") (auto simp: parseMessage_def Let_def)
qed

subsection \<open>The holding rule of the parser\<close>




subsection \<open>The info rule of the parser\<close>



subsection \<open>The response generator\<close>



lemma generateResponse_passes:
  "fst (respond fmt client hook intent w) = Inr r
   \<Longrightarrow> generateResponse fmt client hook intent w = respond fmt client hook intent w"
  by (cases "respond fmt client hook intent w")
    (auto simp: generateResponse_def try_catch_def return_def)








end
